theory Spec2Isabelle
  imports Main "HOL-Library.Sublist"
begin

section \<open>Python values\<close>

text \<open>
  What \<^verbatim>\<open>response.json()\<close> can return: any JSON value, decoded to the Python object
  \<^verbatim>\<open>json.loads\<close> builds. A dict is an association list holding each key once. No code
  here computes with a float, so it is carried as its literal.
\<close>

datatype jvalue =
    JNull
  | JBool bool
  | JInt int
  | JFloat string
  | JStr string
  | JList "jvalue list"
  | JDict "(string \<times> jvalue) list"

type_synonym jdict = "(string \<times> jvalue) list"

text \<open>The name Python prints for the type of a value (\<^verbatim>\<open>type(v).__name__\<close>).\<close>

fun type_name :: "jvalue \<Rightarrow> string" where
  "type_name JNull = ''NoneType''"
| "type_name (JBool _) = ''bool''"
| "type_name (JInt _) = ''int''"
| "type_name (JFloat _) = ''float''"
| "type_name (JStr _) = ''str''"
| "type_name (JList _) = ''list''"
| "type_name (JDict _) = ''dict''"

text \<open>\<^verbatim>\<open>str(n)\<close> for an integer, as the f-string \<^verbatim>\<open>f"HTTP {response.status_code}"\<close> renders it.\<close>

fun digits :: "nat \<Rightarrow> string" where
  "digits n = (if n < 10 then [char_of (48 + n)] else digits (n div 10) @ [char_of (48 + n mod 10)])"

declare digits.simps [simp del]

definition str_int :: "int \<Rightarrow> string" where
  "str_int i = (if i < 0 then CHR ''-'' # digits (nat (- i)) else digits (nat i))"

text \<open>\<^verbatim>\<open>s.startswith(p)\<close>.\<close>

definition startswith :: "string \<Rightarrow> string \<Rightarrow> bool" where
  "startswith s p = prefix p s"

text \<open>
  \<^verbatim>\<open>s.strip()\<close>: leading and trailing whitespace removed. A character is a code point
  below 256; of these Python's \<^verbatim>\<open>str.isspace\<close> holds for 9 to 13, 28 to 32, 133 and 160.
\<close>

definition isspace :: "char \<Rightarrow> bool" where
  "isspace c = (let n = (of_char c :: nat) in (9 \<le> n \<and> n \<le> 13) \<or> (28 \<le> n \<and> n \<le> 32) \<or> n = 133 \<or> n = 160)"

definition strip :: "string \<Rightarrow> string" where
  "strip s = rev (dropWhile isspace (rev (dropWhile isspace s)))"

text \<open>Truth value of an \<^verbatim>\<open>Optional[str]\<close>: \<^verbatim>\<open>None\<close> and the empty string are false.\<close>

fun truthy :: "string option \<Rightarrow> bool" where
  "truthy None = False"
| "truthy (Some s) = (s \<noteq> [])"

text \<open>\<^verbatim>\<open>range(n)\<close>: the integers from 0 up to n - 1, none when n is not positive.\<close>

definition py_range :: "int \<Rightarrow> int list" where
  "py_range n = [0..n - 1]"

section \<open>exceptions.py\<close>

datatype exc_class =
    YouGileErrorC
  | AuthenticationErrorC
  | AuthorizationErrorC
  | RateLimitErrorC
  | ValidationErrorC
  | NotFoundErrorC

text \<open>
  An exception of the \<^verbatim>\<open>YouGileError\<close> family is \<open>Exc class message status_code details\<close>.
  The message is whatever object the raiser passes. \<^verbatim>\<open>ValidationError.field\<close>,
  \<^verbatim>\<open>NotFoundError.resource_type\<close> and \<^verbatim>\<open>resource_id\<close> are never passed by the code below
  and stay \<^verbatim>\<open>None\<close>. The other constructors are the built-in and library exceptions
  that can leave \<^verbatim>\<open>request()\<close>: \<open>AttributeError t a\<close> is Python's "'t' object has no
  attribute 'a'", and \<open>TransportError\<close> stands for an httpx exception that is neither a
  \<^verbatim>\<open>TimeoutException\<close> nor a \<^verbatim>\<open>NetworkError\<close>.
\<close>

datatype exn =
    Exc exc_class jvalue "int option" jdict
  | RuntimeError string
  | AttributeError string string
  | TransportError string

text \<open>\<^verbatim>\<open>YouGileError.__init__\<close>; \<^verbatim>\<open>details or {}\<close> turns \<^verbatim>\<open>None\<close> (and an empty dict) into \<^verbatim>\<open>{}\<close>.\<close>

definition base_init :: "exc_class \<Rightarrow> jvalue \<Rightarrow> int option \<Rightarrow> jdict option \<Rightarrow> exn" where
  "base_init cls message status_code details =
     Exc cls message status_code (case details of None \<Rightarrow> [] | Some d \<Rightarrow> if d = [] then [] else d)"

definition YouGileError :: "jvalue \<Rightarrow> int option \<Rightarrow> jdict option \<Rightarrow> exn" where
  "YouGileError message status_code details = base_init YouGileErrorC message status_code details"

definition AuthenticationError :: "jvalue \<Rightarrow> exn" where
  "AuthenticationError message = base_init AuthenticationErrorC message (Some 401) None"

definition AuthorizationError :: "jvalue \<Rightarrow> exn" where
  "AuthorizationError message = base_init AuthorizationErrorC message (Some 403) None"

definition RateLimitError :: "jvalue \<Rightarrow> exn" where
  "RateLimitError message = base_init RateLimitErrorC message (Some 429) None"

definition ValidationError :: "jvalue \<Rightarrow> exn" where
  "ValidationError message = base_init ValidationErrorC message (Some 400) None"

definition NotFoundError :: "jvalue \<Rightarrow> exn" where
  "NotFoundError message = base_init NotFoundErrorC message (Some 404) None"

section \<open>auth.py\<close>

record AuthManager =
  api_key :: "string option"
  company_id :: "string option"

type_synonym headers = "(string \<times> string) list"

text \<open>\<^verbatim>\<open>AuthManager.__init__(api_key=None, company_id=None)\<close>.\<close>

definition init :: "string option \<Rightarrow> string option \<Rightarrow> AuthManager" where
  "init key cid = \<lparr>api_key = key, company_id = cid\<rparr>"

text \<open>
  A method that mutates the manager returns what it raised (or \<open>Inr ()\<close>) and the manager
  afterwards. \<^verbatim>\<open>not s or not s.strip()\<close> is written out; the two assignments follow
  each other with no suspension point between them.
\<close>

definition set_credentials :: "AuthManager \<Rightarrow> string \<Rightarrow> string \<Rightarrow> (exn + unit) \<times> AuthManager" where
  "set_credentials self key cid =
     (if key = [] \<or> strip key = [] then
        (Inl (ValidationError (JStr ''API key cannot be empty'')), self)
      else if cid = [] \<or> strip cid = [] then
        (Inl (ValidationError (JStr ''Company ID cannot be empty'')), self)
      else
        (let self1 = self\<lparr>api_key := Some (strip key)\<rparr>;
             self2 = self1\<lparr>company_id := Some (strip cid)\<rparr>
         in (Inr (), self2)))"

definition get_auth_headers :: "AuthManager \<Rightarrow> exn + headers" where
  "get_auth_headers self =
     (case api_key self of
        None \<Rightarrow> Inl (AuthenticationError (JStr ''No API key configured''))
      | Some k \<Rightarrow>
          if k = [] then Inl (AuthenticationError (JStr ''No API key configured''))
          else Inr [(''Authorization'', ''Bearer '' @ k),
                    (''Content-Type'', ''application/json''),
                    (''Accept'', ''application/json'')])"

definition get_basic_headers :: "AuthManager \<Rightarrow> headers" where
  "get_basic_headers self =
     [(''Content-Type'', ''application/json''), (''Accept'', ''application/json'')]"

definition is_authenticated :: "AuthManager \<Rightarrow> bool" where
  "is_authenticated self = (truthy (api_key self) \<and> truthy (company_id self))"

definition clear_credentials :: "AuthManager \<Rightarrow> AuthManager" where
  "clear_credentials self = self\<lparr>api_key := None, company_id := None\<rparr>"

text \<open>
  A program works on a manager by calling its two mutating methods, in any order. A call
  of \<^verbatim>\<open>set_credentials\<close> that raises leaves the manager to whoever catches the error.
\<close>

datatype auth_op =
    SetCredentials string string
  | ClearCredentials

fun auth_step :: "AuthManager \<Rightarrow> auth_op \<Rightarrow> AuthManager" where
  "auth_step a (SetCredentials key cid) = snd (set_credentials a key cid)"
| "auth_step a ClearCredentials = clear_credentials a"

fun auth_run :: "AuthManager \<Rightarrow> auth_op list \<Rightarrow> AuthManager" where
  "auth_run a [] = a"
| "auth_run a (x # xs) = auth_run (auth_step a x) xs"

text \<open>
  The invariant of the data model: both fields are set or neither is. A field is set when
  it is true in Python's sense, as \<^verbatim>\<open>is_authenticated\<close> and \<^verbatim>\<open>get_auth_headers\<close> test it.
\<close>

definition both_or_neither :: "AuthManager \<Rightarrow> bool" where
  "both_or_neither a = (truthy (api_key a) = truthy (company_id a))"

section \<open>client.py\<close>

record settings =
  yougile_base_url :: string
  yougile_timeout :: int
  yougile_max_retries :: int

text \<open>The settings as \<^verbatim>\<open>settings.py\<close> declares their defaults.\<close>

definition default_settings :: settings where
  "default_settings =
     \<lparr>yougile_base_url = ''https://yougile.com'', yougile_timeout = 30, yougile_max_retries = 3\<rparr>"

text \<open>The \<^verbatim>\<open>httpx.AsyncClient\<close> the context manager opens, as far as this file configures it.\<close>

record AsyncClient =
  pool_base_url :: string
  pool_timeout :: int
  max_keepalive_connections :: nat
  max_connections :: nat
  is_closed :: bool

record YouGileClient =
  auth_manager :: AuthManager
  base_url :: string
  client :: "AsyncClient option"

definition client_init :: "settings \<Rightarrow> AuthManager option \<Rightarrow> YouGileClient" where
  "client_init st am =
     \<lparr>auth_manager = (case am of None \<Rightarrow> init None None | Some a \<Rightarrow> a),
      base_url = yougile_base_url st,
      client = None\<rparr>"

definition aenter :: "settings \<Rightarrow> YouGileClient \<Rightarrow> YouGileClient" where
  "aenter st self =
     self\<lparr>client := Some \<lparr>pool_base_url = base_url self, pool_timeout = yougile_timeout st,
                            max_keepalive_connections = 10, max_connections = 100,
                            is_closed = False\<rparr>\<rparr>"

definition aexit :: "YouGileClient \<Rightarrow> YouGileClient" where
  "aexit self =
     (case client self of
        None \<Rightarrow> self
      | Some c \<Rightarrow> self\<lparr>client := Some (c\<lparr>is_closed := True\<rparr>)\<rparr>)"

text \<open>
  A response as \<^verbatim>\<open>_handle_response\<close> reads it: \<open>json\<close> is what \<^verbatim>\<open>response.json()\<close>
  returns, \<open>None\<close> when it raises \<^verbatim>\<open>ValueError\<close>.
\<close>

record response =
  status_code :: int
  resp_text :: string
  json :: "jvalue option"

definition http_message :: "response \<Rightarrow> string" where
  "http_message r = ''HTTP '' @ str_int (status_code r)"

text \<open>
  \<^verbatim>\<open>error_data\<close>: the decoded body, or the dict made from the raw text
  (\<^verbatim>\<open>response.text or f"HTTP {response.status_code}"\<close>) when decoding fails.
\<close>

definition error_data :: "response \<Rightarrow> jvalue" where
  "error_data r =
     (case json r of
        Some body \<Rightarrow> body
      | None \<Rightarrow> JDict [(''error'', JStr (if resp_text r \<noteq> [] then resp_text r else http_message r))])"

text \<open>
  \<^verbatim>\<open>_handle_response\<close>. \<^verbatim>\<open>error_data.get("error", ...)\<close> is a method of dicts only: on any
  other decoded value Python raises \<^verbatim>\<open>AttributeError\<close>.
\<close>

definition handle_response :: "response \<Rightarrow> exn + jvalue" where
  "handle_response r =
     (if status_code r = 200 \<or> status_code r = 201 then
        (case json r of
           Some body \<Rightarrow> Inr body
         | None \<Rightarrow> Inr (JDict [(''success'', JBool True), (''data'', JStr (resp_text r))]))
      else
        (case error_data r of
           JDict d \<Rightarrow>
             (let error_message = (case map_of d ''error'' of
                                     Some v \<Rightarrow> v
                                   | None \<Rightarrow> JStr (http_message r))
              in if status_code r = 401 then Inl (AuthenticationError error_message)
                 else if status_code r = 403 then Inl (AuthorizationError error_message)
                 else if status_code r = 404 then Inl (NotFoundError error_message)
                 else if status_code r = 429 then Inl (RateLimitError error_message)
                 else Inl (YouGileError error_message (Some (status_code r)) (Some d)))
         | v \<Rightarrow> Inl (AttributeError (type_name v) ''get'')))"

text \<open>
  What one call of \<^verbatim>\<open>self._client.request(...)\<close> does: it returns a response or raises.
\<close>

datatype outcome =
    Response response
  | TimeoutException
  | NetworkError string
  | OtherError string

text \<open>The keyword arguments handed to \<^verbatim>\<open>self._client.request\<close>.\<close>

record call =
  http_method :: string
  url :: string
  json_arg :: "jvalue option"
  params :: "jvalue option"
  call_headers :: headers

text \<open>
  What a run of \<^verbatim>\<open>request()\<close> does to the outside world, in order: a call of the
  transport (with the attempt number) or a sleep.
\<close>

datatype event =
    Send int call
  | Sleep int

text \<open>
  How the \<^verbatim>\<open>for\<close> loop ends: by \<^verbatim>\<open>return\<close>, by \<^verbatim>\<open>raise\<close>, or by running out of
  attempts, which falls through to the statement after the loop.
\<close>

datatype loop_exit =
    Return jvalue
  | Raise exn
  | Fallthrough

text \<open>
  The loop over \<^verbatim>\<open>range(settings.yougile_max_retries + 1)\<close>. \<open>transport\<close> gives the
  outcome of the transport call of each attempt.
\<close>

fun request_loop :: "int \<Rightarrow> (int \<Rightarrow> outcome) \<Rightarrow> call \<Rightarrow> int list \<Rightarrow> loop_exit \<times> event list" where
  "request_loop max_retries transport c [] = (Fallthrough, [])"
| "request_loop max_retries transport c (attempt # rest) =
     (case transport attempt of
        Response r \<Rightarrow>
          (case handle_response r of Inr body \<Rightarrow> (Return body, [Send attempt c])
                                   | Inl e \<Rightarrow> (Raise e, [Send attempt c]))
      | TimeoutException \<Rightarrow>
          if attempt = max_retries then
            (Raise (YouGileError (JStr ''Request timeout'') None None), [Send attempt c])
          else
            (let (ex, tr) = request_loop max_retries transport c rest
             in (ex, Send attempt c # Sleep (2 ^ nat attempt) # tr))
      | NetworkError e \<Rightarrow>
          if attempt = max_retries then
            (Raise (YouGileError (JStr (''Network error: '' @ e)) None None), [Send attempt c])
          else
            (let (ex, tr) = request_loop max_retries transport c rest
             in (ex, Send attempt c # Sleep (2 ^ nat attempt) # tr))
      | OtherError e \<Rightarrow> (Raise (TransportError e), [Send attempt c]))"

text \<open>Header selection and the final URL, the two steps before the loop.\<close>

definition select_headers :: "AuthManager \<Rightarrow> string \<Rightarrow> exn + headers" where
  "select_headers am path =
     (if startswith path ''/auth/'' \<or> startswith path ''/api-v2/auth/''
      then Inr (get_basic_headers am)
      else get_auth_headers am)"

definition full_url :: "string \<Rightarrow> string" where
  "full_url path = (if \<not> startswith path ''/api-v2'' then ''/api-v2'' @ path else path)"

text \<open>The call \<^verbatim>\<open>request()\<close> makes on every attempt: the same arguments each time.\<close>

definition mk_call :: "string \<Rightarrow> string \<Rightarrow> jvalue option \<Rightarrow> jvalue option \<Rightarrow> headers \<Rightarrow> call" where
  "mk_call meth path body query hs =
     \<lparr>http_method = meth, url = full_url path, json_arg = body, params = query, call_headers = hs\<rparr>"

text \<open>The message of the \<^verbatim>\<open>RuntimeError\<close>; it holds two apostrophes (character 39).\<close>

definition not_initialized :: string where
  "not_initialized =
     ''Client not initialized. Use '' @ [char_of (39::nat)] @ ''async with'' @ [char_of (39::nat)]
       @ '' context manager.''"

text \<open>
  \<^verbatim>\<open>request()\<close>: the value returned or the exception raised, and the events of the run.
\<close>

definition request ::
  "settings \<Rightarrow> (int \<Rightarrow> outcome) \<Rightarrow> YouGileClient \<Rightarrow> string \<Rightarrow> string \<Rightarrow> jvalue option \<Rightarrow> jvalue option
     \<Rightarrow> (exn + jvalue) \<times> event list" where
  "request st transport self meth path body query =
     (case client self of
        None \<Rightarrow> (Inl (RuntimeError not_initialized), [])
      | Some _ \<Rightarrow>
          (case select_headers (auth_manager self) path of
             Inl e \<Rightarrow> (Inl e, [])
           | Inr hs \<Rightarrow>
               (case request_loop (yougile_max_retries st) transport
                       (mk_call meth path body query hs)
                       (py_range (yougile_max_retries st + 1)) of
                  (Return v, tr) \<Rightarrow> (Inr v, tr)
                | (Raise e, tr) \<Rightarrow> (Inl e, tr)
                | (Fallthrough, tr) \<Rightarrow>
                    (Inl (YouGileError (JStr ''Max retries exceeded'') None None), tr))))"

text \<open>The convenience methods.\<close>

definition get :: "settings \<Rightarrow> (int \<Rightarrow> outcome) \<Rightarrow> YouGileClient \<Rightarrow> string \<Rightarrow> jvalue option
     \<Rightarrow> (exn + jvalue) \<times> event list" where
  "get st transport self path query = request st transport self ''GET'' path None query"

definition post :: "settings \<Rightarrow> (int \<Rightarrow> outcome) \<Rightarrow> YouGileClient \<Rightarrow> string \<Rightarrow> jvalue option
     \<Rightarrow> jvalue option \<Rightarrow> (exn + jvalue) \<times> event list" where
  "post st transport self path body query = request st transport self ''POST'' path body query"

definition put :: "settings \<Rightarrow> (int \<Rightarrow> outcome) \<Rightarrow> YouGileClient \<Rightarrow> string \<Rightarrow> jvalue option
     \<Rightarrow> (exn + jvalue) \<times> event list" where
  "put st transport self path body = request st transport self ''PUT'' path body None"

definition delete :: "settings \<Rightarrow> (int \<Rightarrow> outcome) \<Rightarrow> YouGileClient \<Rightarrow> string
     \<Rightarrow> (exn + jvalue) \<times> event list" where
  "delete st transport self path = request st transport self ''DELETE'' path None None"

section \<open>Observing a run\<close>

text \<open>The outcomes the two \<^verbatim>\<open>except\<close> clauses of the loop catch.\<close>

fun retryable :: "outcome \<Rightarrow> bool" where
  "retryable TimeoutException = True"
| "retryable (NetworkError _) = True"
| "retryable _ = False"

fun is_send :: "event \<Rightarrow> bool" where
  "is_send (Send _ _) = True"
| "is_send (Sleep _) = False"

text \<open>
  Concrete inputs: a client inside its \<^verbatim>\<open>async with\<close> block holding a credential, the
  call it sends for a GET, such a client with no credential, the same client after it left
  the block, the call a client sends to an auth path, a transport that always times out,
  one that always answers with the same response, and some responses.
\<close>

definition example_client :: YouGileClient where
  "example_client =
     aenter default_settings
       (client_init default_settings (Some (init (Some ''key'') (Some ''company''))))"

definition example_call :: "string \<Rightarrow> call" where
  "example_call path =
     \<lparr>http_method = ''GET'', url = ''/api-v2'' @ path, json_arg = None, params = None,
      call_headers = [(''Authorization'', ''Bearer key''), (''Content-Type'', ''application/json''),
                      (''Accept'', ''application/json'')]\<rparr>"

definition no_credential_client :: YouGileClient where
  "no_credential_client = aenter default_settings (client_init default_settings None)"

definition exited_client :: YouGileClient where
  "exited_client = aexit no_credential_client"

definition basic_call :: "string \<Rightarrow> call" where
  "basic_call path =
     \<lparr>http_method = ''POST'', url = ''/api-v2'' @ path, json_arg = None, params = None,
      call_headers = [(''Content-Type'', ''application/json''), (''Accept'', ''application/json'')]\<rparr>"

definition always_timeout :: "int \<Rightarrow> outcome" where
  "always_timeout attempt = TimeoutException"

definition respond :: "response \<Rightarrow> int \<Rightarrow> outcome" where
  "respond r attempt = Response r"

definition ok_plain :: response where
  "ok_plain = \<lparr>status_code = 200, resp_text = ''done'', json = None\<rparr>"

definition not_found_list :: response where
  "not_found_list = \<lparr>status_code = 404, resp_text = ''[]'', json = Some (JList [])\<rparr>"

definition not_found_task :: response where
  "not_found_task =
     \<lparr>status_code = 404, resp_text = ''{\"error\":\"task not found\"}'',
      json = Some (JDict [(''error'', JStr ''task not found'')])\<rparr>"

section \<open>The retry loop, one iteration at a time\<close>

lemma loop_Nil: "request_loop mr t c [] = (Fallthrough, [])"
  by simp

lemma loop_stop:
  "\<not> retryable (t a) \<or> a = mr \<Longrightarrow> snd (request_loop mr t c (a # rest)) = [Send a c]"
  by (cases "t a") (auto split: sum.splits)

lemma loop_retry:
  "retryable (t a) \<Longrightarrow> a \<noteq> mr \<Longrightarrow>
   request_loop mr t c (a # rest) =
     (fst (request_loop mr t c rest),
      Send a c # Sleep (2 ^ nat a) # snd (request_loop mr t c rest))"
  by (cases "t a") (auto split: prod.splits)

lemma loop_response:
  "t a = Response r \<Longrightarrow>
   fst (request_loop mr t c (a # rest)) =
     (case handle_response r of Inr decoded \<Rightarrow> Return decoded | Inl e \<Rightarrow> Raise e)"
  by (auto split: sum.splits)

lemma loop_last_timeout:
  "t mr = TimeoutException \<Longrightarrow>
   fst (request_loop mr t c (mr # rest)) = Raise (YouGileError (JStr ''Request timeout'') None None)"
  by simp

lemma loop_last_network:
  "t mr = NetworkError e \<Longrightarrow>
   fst (request_loop mr t c (mr # rest)) =
     Raise (YouGileError (JStr (''Network error: '' @ e)) None None)"
  by simp

lemma loop_other:
  "t a = OtherError e \<Longrightarrow> fst (request_loop mr t c (a # rest)) = Raise (TransportError e)"
  by simp

lemmas loop_equations = request_loop.simps

declare request_loop.simps [simp del]

lemma loop_head: "\<exists>evs. snd (request_loop mr t c (a # rest)) = Send a c # evs"
  by (cases "retryable (t a) \<and> a \<noteq> mr") (auto simp: loop_retry loop_stop)

text \<open>
  Wherever a call of the transport stands in the events of the loop, it is the call of an
  attempt of the list; after a caught failure that is not the last attempt come the sleep
  and the rest of the loop, and after anything else nothing.
\<close>

lemma loop_decomp:
  assumes "snd (request_loop mr t c as) = evs1 @ Send i c' # evs2"
  shows "c' = c \<and> (\<exists>as1 as2. as = as1 @ i # as2 \<and>
           (if retryable (t i) \<and> i \<noteq> mr
            then evs2 = Sleep (2 ^ nat i) # snd (request_loop mr t c as2)
                 \<and> fst (request_loop mr t c as) = fst (request_loop mr t c as2)
            else evs2 = []
                 \<and> fst (request_loop mr t c as) = fst (request_loop mr t c (i # as2))))"
  using assms
proof (induction as arbitrary: evs1)
  case Nil
  then show ?case by (simp add: loop_Nil)
next
  case (Cons a rest)
  show ?case
  proof (cases "retryable (t a) \<and> a \<noteq> mr")
    case False
    then have "snd (request_loop mr t c (a # rest)) = [Send a c]"
      by (intro loop_stop) auto
    with Cons.prems have "evs1 = []" "i = a" "c' = c" "evs2 = []"
      by (auto simp: Cons_eq_append_conv)
    with False show ?thesis
      by (intro conjI exI[of _ "[]"] exI[of _ rest]) auto
  next
    case True
    then have eq: "request_loop mr t c (a # rest) =
       (fst (request_loop mr t c rest),
        Send a c # Sleep (2 ^ nat a) # snd (request_loop mr t c rest))"
      by (intro loop_retry) auto
    show ?thesis
    proof (cases evs1)
      case Nil
      with Cons.prems eq have "i = a" "c' = c"
        "evs2 = Sleep (2 ^ nat a) # snd (request_loop mr t c rest)"
        by auto
      with True eq show ?thesis
        by (intro conjI exI[of _ "[]"] exI[of _ rest]) auto
    next
      case (Cons x evs1')
      with Cons.prems eq
      have tl: "evs1' @ Send i c' # evs2 = Sleep (2 ^ nat a) # snd (request_loop mr t c rest)"
        by auto
      then obtain evs1'' where "evs1' = Sleep (2 ^ nat a) # evs1''"
        by (cases evs1') auto
      with tl have "snd (request_loop mr t c rest) = evs1'' @ Send i c' # evs2"
        by auto
      from Cons.IH[OF this] obtain as1 as2 where
        c: "c' = c" and r: "rest = as1 @ i # as2" and
        k: "if retryable (t i) \<and> i \<noteq> mr
            then evs2 = Sleep (2 ^ nat i) # snd (request_loop mr t c as2)
                 \<and> fst (request_loop mr t c rest) = fst (request_loop mr t c as2)
            else evs2 = []
                 \<and> fst (request_loop mr t c rest) = fst (request_loop mr t c (i # as2))"
        by blast
      have "a # rest = (a # as1) @ i # as2"
        using r by simp
      moreover have "fst (request_loop mr t c (a # rest)) = fst (request_loop mr t c rest)"
        using eq by simp
      ultimately show ?thesis
        using c k by (intro conjI exI[of _ "a # as1"] exI[of _ as2]) auto
    qed
  qed
qed

lemma loop_count: "length (filter is_send (snd (request_loop mr t c as))) \<le> length as"
proof (induction as)
  case Nil
  then show ?case by (simp add: loop_Nil)
next
  case (Cons a rest)
  show ?case
  proof (cases "retryable (t a) \<and> a \<noteq> mr")
    case True
    then show ?thesis using Cons.IH by (simp add: loop_retry)
  next
    case False
    then have "snd (request_loop mr t c (a # rest)) = [Send a c]"
      by (intro loop_stop) auto
    then show ?thesis by simp
  qed
qed

lemma loop_no_fallthrough:
  "as \<noteq> [] \<Longrightarrow> last as = mr \<Longrightarrow> fst (request_loop mr t c as) \<noteq> Fallthrough"
proof (induction as)
  case Nil
  then show ?case by simp
next
  case (Cons a rest)
  show ?case
  proof (cases "retryable (t a) \<and> a \<noteq> mr")
    case True
    with Cons.prems have "rest \<noteq> []" "last rest = mr"
      by (auto split: if_splits)
    with Cons.IH have "fst (request_loop mr t c rest) \<noteq> Fallthrough"
      by simp
    with True show ?thesis by (simp add: loop_retry)
  next
    case False
    then show ?thesis
      by (cases "t a") (auto simp: loop_equations split: sum.splits)
  qed
qed

section \<open>The range of attempts\<close>

lemma py_range_succ: "py_range (mr + 1) = [0..mr]"
  by (simp add: py_range_def)

lemma upto_decomp:
  assumes "[a..b] = as1 @ i # as2"
  shows "a \<le> i \<and> i \<le> b \<and> as2 = [i + 1..b]"
proof -
  have "i \<in> set [a..b]"
    using assms by simp
  then have ab: "a \<le> i" "i \<le> b"
    by auto
  then have sp: "[a..b] = [a..i - 1] @ i # [i + 1..b]"
    by (rule upto_split3)
  have "i \<notin> set [a..i - 1]" "i \<notin> set [i + 1..b]"
    by auto
  then have "([a..i - 1] @ i # [i + 1..b] = as1 @ i # as2) = ([a..i - 1] = as1 \<and> [i + 1..b] = as2)"
    by (rule append_Cons_eq_iff)
  with sp assms have "as2 = [i + 1..b]"
    by simp
  with ab show ?thesis by simp
qed

lemma upto_0_3: "[0..3::int] = [0, 1, 2, 3]"
  by (simp add: upto_rec1)

section \<open>\<^verbatim>\<open>request()\<close> by cases\<close>

lemma request_not_open:
  "client self = None \<Longrightarrow>
   request st t self meth path body query = (Inl (RuntimeError not_initialized), [])"
  by (simp add: request_def)

lemma request_no_headers:
  "client self = Some p \<Longrightarrow> select_headers (auth_manager self) path = Inl e \<Longrightarrow>
   request st t self meth path body query = (Inl e, [])"
  by (simp add: request_def)

lemma request_run:
  assumes "client self = Some p" and "select_headers (auth_manager self) path = Inr hs"
  shows "snd (request st t self meth path body query) =
           snd (request_loop (yougile_max_retries st) t (mk_call meth path body query hs)
                  [0..yougile_max_retries st])"
    and "fst (request st t self meth path body query) =
           (case fst (request_loop (yougile_max_retries st) t (mk_call meth path body query hs)
                        [0..yougile_max_retries st]) of
              Return v \<Rightarrow> Inr v
            | Raise e \<Rightarrow> Inl e
            | Fallthrough \<Rightarrow> Inl (YouGileError (JStr ''Max retries exceeded'') None None))"
  using assms
  by (auto simp: request_def py_range_succ split: prod.splits loop_exit.splits)

lemma request_trace_cases:
  "snd (request st t self meth path body query) = [] \<or>
   (\<exists>p hs. client self = Some p \<and> select_headers (auth_manager self) path = Inr hs)"
  by (cases "client self"; cases "select_headers (auth_manager self) path")
     (auto simp: request_not_open request_no_headers)

lemma YouGileError_plain: "YouGileError m None None = Exc YouGileErrorC m None []"
  by (simp add: YouGileError_def base_init_def)

lemma sum_of_exit:
  "(case (case s of Inr decoded \<Rightarrow> Return decoded | Inl e \<Rightarrow> Raise e) of
      Return v \<Rightarrow> Inr v | Raise e \<Rightarrow> Inl e | Fallthrough \<Rightarrow> Inl x) = s"
  by (cases s) auto

lemmas eval_request =
  request_def select_headers_def startswith_def get_auth_headers_def get_basic_headers_def
  example_client_def example_call_def aenter_def client_init_def init_def default_settings_def
  py_range_def full_url_def mk_call_def loop_equations always_timeout_def respond_def
  YouGileError_def base_init_def upto_0_3

lemma always_timeout_run:
  "request default_settings always_timeout example_client ''GET'' ''/users'' None None
   = (Inl (Exc YouGileErrorC (JStr ''Request timeout'') None []),
      [Send 0 (example_call ''/users''), Sleep 1, Send 1 (example_call ''/users''), Sleep 2,
       Send 2 (example_call ''/users''), Sleep 4, Send 3 (example_call ''/users'')])"
  by (simp add: eval_request)

lemma respond_run:
  "request default_settings (respond r) example_client ''GET'' ''/users'' None None
   = (handle_response r, [Send 0 (example_call ''/users'')])"
  by (cases "handle_response r") (simp_all add: eval_request)

section \<open>Retries\<close>

text \<open>
  C1. For every logical request, \<^verbatim>\<open>request()\<close> makes at most \<^verbatim>\<open>max_retries + 1\<close> attempts
  (a range is never shorter than empty, so the bound reads \<open>nat (max_retries + 1)\<close>).
  Every attempt \<open>i\<close> of a run lies between 0 and \<^verbatim>\<open>max_retries\<close>. It is followed by a sleep
  of \<open>2 ^ i\<close> and then by attempt \<open>i + 1\<close> exactly when it failed with a timeout or a network
  error and \<open>i < max_retries\<close>; otherwise it is the last event of the run. When the final
  attempt \<open>i = max_retries\<close> times out, \<^verbatim>\<open>request()\<close> raises the plain \<^verbatim>\<open>YouGileError\<close>
  "Request timeout", and when it fails with a network error, "Network error: <detail>";
  both carry no status code and no details, unlike every error made from a response.
\<close>

theorem request_retries_transport_failures:
  "length (filter is_send (snd (request st t self meth path body query)))
     \<le> nat (yougile_max_retries st + 1)
   \<and> (\<forall>evs1 i c evs2.
         snd (request st t self meth path body query) = evs1 @ Send i c # evs2 \<longrightarrow>
         0 \<le> i \<and> i \<le> yougile_max_retries st
         \<and> (if retryable (t i) \<and> i < yougile_max_retries st
             then \<exists>evs3. evs2 = Sleep (2 ^ nat i) # Send (i + 1) c # evs3
             else evs2 = [])
         \<and> (i = yougile_max_retries st \<and> t i = TimeoutException \<longrightarrow>
               fst (request st t self meth path body query)
                 = Inl (Exc YouGileErrorC (JStr ''Request timeout'') None []))
         \<and> (\<forall>e. i = yougile_max_retries st \<and> t i = NetworkError e \<longrightarrow>
               fst (request st t self meth path body query)
                 = Inl (Exc YouGileErrorC (JStr (''Network error: '' @ e)) None [])))"
proof -
  let ?mr = "yougile_max_retries st"
  let ?res = "request st t self meth path body query"
  consider (quiet) "snd ?res = []"
    | (run) p hs where "client self = Some p" "select_headers (auth_manager self) path = Inr hs"
    using request_trace_cases by blast
  then show ?thesis
  proof cases
    case quiet
    then show ?thesis by simp
  next
    case run
    let ?c = "mk_call meth path body query hs"
    note tr = request_run(1)[OF run, of st t meth body query]
    note rs = request_run(2)[OF run, of st t meth body query]
    have cnt: "length (filter is_send (snd ?res)) \<le> nat (?mr + 1)"
      using loop_count[of ?mr t ?c "[0..?mr]"] by (simp add: tr)
    have dec: "0 \<le> i \<and> i \<le> ?mr
         \<and> (if retryable (t i) \<and> i < ?mr
             then \<exists>evs3. evs2 = Sleep (2 ^ nat i) # Send (i + 1) c # evs3
             else evs2 = [])
         \<and> (i = ?mr \<and> t i = TimeoutException \<longrightarrow>
               fst ?res = Inl (Exc YouGileErrorC (JStr ''Request timeout'') None []))
         \<and> (\<forall>e. i = ?mr \<and> t i = NetworkError e \<longrightarrow>
               fst ?res = Inl (Exc YouGileErrorC (JStr (''Network error: '' @ e)) None []))"
      if d: "snd ?res = evs1 @ Send i c # evs2" for evs1 i c evs2
    proof -
      from d have "snd (request_loop ?mr t ?c [0..?mr]) = evs1 @ Send i c # evs2"
        by (simp add: tr)
      from loop_decomp[OF this] obtain as1 as2 where
        c: "c = ?c" and sp: "[0..?mr] = as1 @ i # as2" and
        k: "if retryable (t i) \<and> i \<noteq> ?mr
            then evs2 = Sleep (2 ^ nat i) # snd (request_loop ?mr t ?c as2)
                 \<and> fst (request_loop ?mr t ?c [0..?mr]) = fst (request_loop ?mr t ?c as2)
            else evs2 = []
                 \<and> fst (request_loop ?mr t ?c [0..?mr])
                     = fst (request_loop ?mr t ?c (i # as2))"
        by blast
      from upto_decomp[OF sp] have rng: "0 \<le> i" "i \<le> ?mr" and as2: "as2 = [i + 1..?mr]"
        by auto
      have follow: "\<exists>evs3. evs2 = Sleep (2 ^ nat i) # Send (i + 1) c # evs3"
        if "retryable (t i)" "i < ?mr"
      proof -
        from that have "as2 = (i + 1) # [i + 1 + 1..?mr]"
          unfolding as2 by (intro upto_rec1) simp
        then obtain evs3 where "snd (request_loop ?mr t ?c as2) = Send (i + 1) ?c # evs3"
          using loop_head[of ?mr t ?c "i + 1"] by auto
        with k that c show ?thesis by auto
      qed
      have last_timeout: "fst ?res = Inl (Exc YouGileErrorC (JStr ''Request timeout'') None [])"
        if "i = ?mr" "t i = TimeoutException"
      proof -
        from k that
        have "fst (request_loop ?mr t ?c [0..?mr]) = fst (request_loop ?mr t ?c (?mr # as2))"
          by simp
        also have "\<dots> = Raise (YouGileError (JStr ''Request timeout'') None None)"
          using that by (intro loop_last_timeout) simp
        finally show ?thesis by (simp add: rs YouGileError_plain)
      qed
      have last_network:
        "fst ?res = Inl (Exc YouGileErrorC (JStr (''Network error: '' @ e)) None [])"
        if "i = ?mr" "t i = NetworkError e" for e
      proof -
        from k that
        have "fst (request_loop ?mr t ?c [0..?mr]) = fst (request_loop ?mr t ?c (?mr # as2))"
          by simp
        also have "\<dots> = Raise (YouGileError (JStr (''Network error: '' @ e)) None None)"
          using that by (intro loop_last_network) simp
        finally show ?thesis by (simp add: rs YouGileError_plain)
      qed
      have stop: "evs2 = []" if "\<not> (retryable (t i) \<and> i < ?mr)"
        using k that rng by (auto split: if_splits)
      show ?thesis
        using rng follow last_timeout last_network stop by auto
    qed
    show ?thesis using cnt dec by blast
  qed
qed

text \<open>
  With the default settings and a transport that always times out: four attempts, sleeps
  of 1, 2 and 4 between them, and "Request timeout" after the fourth.
\<close>

theorem request_retries_transport_failures_witness:
  "snd (request default_settings always_timeout example_client ''GET'' ''/users'' None None)
     = [Send 0 (example_call ''/users''), Sleep 1, Send 1 (example_call ''/users''), Sleep 2,
        Send 2 (example_call ''/users''), Sleep 4] @ Send 3 (example_call ''/users'') # []
   \<and> 3 = yougile_max_retries default_settings
   \<and> always_timeout 3 = TimeoutException
   \<and> fst (request default_settings always_timeout example_client ''GET'' ''/users'' None None)
       = Inl (Exc YouGileErrorC (JStr ''Request timeout'') None [])"
proof -
  let ?res = "request default_settings always_timeout example_client ''GET'' ''/users'' None None"
  have tr: "snd ?res
     = [Send 0 (example_call ''/users''), Sleep 1, Send 1 (example_call ''/users''), Sleep 2,
        Send 2 (example_call ''/users''), Sleep 4] @ Send 3 (example_call ''/users'') # []"
    by (simp add: always_timeout_run)
  have mr: "3 = yougile_max_retries default_settings \<and> always_timeout 3 = TimeoutException"
    by (simp add: default_settings_def always_timeout_def)
  from request_retries_transport_failures
         [of default_settings always_timeout example_client "''GET''" "''/users''" None None]
  have "\<forall>evs1 i c evs2. snd ?res = evs1 @ Send i c # evs2 \<longrightarrow>
          (i = yougile_max_retries default_settings \<and> always_timeout i = TimeoutException \<longrightarrow>
             fst ?res = Inl (Exc YouGileErrorC (JStr ''Request timeout'') None []))"
    by blast
  from this[rule_format, OF tr] mr tr show ?thesis by simp
qed

text \<open>
  C3. A response never leads to another attempt. If an attempt of a run received a response,
  whatever its status, that attempt is the last event of the run and \<^verbatim>\<open>request()\<close> ends
  with what \<^verbatim>\<open>_handle_response\<close> makes of it (the decoded body or the classified error).
  An attempt that is followed by anything failed with a timeout or a network error.
\<close>

theorem request_stops_at_response:
  "(\<forall>evs1 i c evs2 r.
      snd (request st t self meth path body query) = evs1 @ Send i c # evs2 \<and> t i = Response r \<longrightarrow>
      evs2 = [] \<and> fst (request st t self meth path body query) = handle_response r)
   \<and> (\<forall>evs1 i c evs2.
        snd (request st t self meth path body query) = evs1 @ Send i c # evs2 \<and> evs2 \<noteq> [] \<longrightarrow>
        t i = TimeoutException \<or> (\<exists>e. t i = NetworkError e))"
proof -
  let ?mr = "yougile_max_retries st"
  let ?res = "request st t self meth path body query"
  have response_last: "evs2 = [] \<and> fst ?res = handle_response r"
    if d: "snd ?res = evs1 @ Send i c # evs2" and r: "t i = Response r" for evs1 i c evs2 r
  proof -
    from d have "snd ?res \<noteq> []" by simp
    with request_trace_cases[of st t self meth path body query] obtain p hs where
      run: "client self = Some p" "select_headers (auth_manager self) path = Inr hs"
      by blast
    let ?c = "mk_call meth path body query hs"
    from d have "snd (request_loop ?mr t ?c [0..?mr]) = evs1 @ Send i c # evs2"
      by (simp add: request_run(1)[OF run])
    from loop_decomp[OF this] r obtain as2 where
      "evs2 = []"
      "fst (request_loop ?mr t ?c [0..?mr]) = fst (request_loop ?mr t ?c (i # as2))"
      by auto
    then show ?thesis
      using r by (simp add: request_run(2)[OF run] loop_response sum_of_exit)
  qed
  have followed: "t i = TimeoutException \<or> (\<exists>e. t i = NetworkError e)"
    if d: "snd ?res = evs1 @ Send i c # evs2" and ne: "evs2 \<noteq> []" for evs1 i c evs2
  proof -
    from d have "snd ?res \<noteq> []" by simp
    with request_trace_cases[of st t self meth path body query] obtain p hs where
      run: "client self = Some p" "select_headers (auth_manager self) path = Inr hs"
      by blast
    let ?c = "mk_call meth path body query hs"
    from d have "snd (request_loop ?mr t ?c [0..?mr]) = evs1 @ Send i c # evs2"
      by (simp add: request_run(1)[OF run])
    from loop_decomp[OF this] ne have "retryable (t i)"
      by (auto split: if_splits)
    then show ?thesis by (cases "t i") auto
  qed
  show ?thesis using response_last followed by blast
qed

text \<open>
  A 404 on the first attempt ends the run there with \<^verbatim>\<open>NotFoundError\<close>; in the run of
  timeouts the first attempt is followed by more, and it did time out.
\<close>

theorem request_stops_at_response_witness:
  "snd (request default_settings (respond not_found_task) example_client ''GET'' ''/users'' None None)
     = [] @ Send 0 (example_call ''/users'') # []
   \<and> respond not_found_task 0 = Response not_found_task
   \<and> fst (request default_settings (respond not_found_task) example_client ''GET'' ''/users'' None None)
       = Inl (Exc NotFoundErrorC (JStr ''task not found'') (Some 404) [])
   \<and> always_timeout 0 = TimeoutException"
proof -
  let ?nf = "request default_settings (respond not_found_task) example_client ''GET'' ''/users'' None None"
  let ?to = "request default_settings always_timeout example_client ''GET'' ''/users'' None None"
  note thm_nf = request_stops_at_response
    [of default_settings "respond not_found_task" example_client "''GET''" "''/users''" None None]
  note thm_to = request_stops_at_response
    [of default_settings always_timeout example_client "''GET''" "''/users''" None None]
  have tr: "snd ?nf = [] @ Send 0 (example_call ''/users'') # []"
    by (simp add: respond_run)
  have r: "respond not_found_task 0 = Response not_found_task"
    by (simp add: respond_def)
  from thm_nf have "\<forall>evs1 i c evs2 r. snd ?nf = evs1 @ Send i c # evs2
      \<and> respond not_found_task i = Response r \<longrightarrow> evs2 = [] \<and> fst ?nf = handle_response r"
    by blast
  from this[rule_format, of "[]" 0 "example_call ''/users''" "[]" not_found_task] tr r
  have res: "fst ?nf = handle_response not_found_task"
    by blast
  have hr: "handle_response not_found_task
              = Inl (Exc NotFoundErrorC (JStr ''task not found'') (Some 404) [])"
    by (simp add: handle_response_def not_found_task_def error_data_def NotFoundError_def
          base_init_def)
  have tr2: "snd ?to = [] @ Send 0 (example_call ''/users'')
                # [Sleep 1, Send 1 (example_call ''/users''), Sleep 2,
                   Send 2 (example_call ''/users''), Sleep 4, Send 3 (example_call ''/users'')]"
    by (simp add: always_timeout_run)
  from thm_to have "\<forall>evs1 i c evs2. snd ?to = evs1 @ Send i c # evs2 \<and> evs2 \<noteq> [] \<longrightarrow>
        always_timeout i = TimeoutException \<or> (\<exists>e. always_timeout i = NetworkError e)"
    by blast
  from this[rule_format, of "[]" 0 "example_call ''/users''"] tr2
  have "always_timeout 0 = TimeoutException \<or> (\<exists>e. always_timeout 0 = NetworkError e)"
    by blast
  then have "always_timeout 0 = TimeoutException"
    by (simp add: always_timeout_def)
  with tr r res hr show ?thesis by simp
qed

section \<open>Responses\<close>

text \<open>
  C4. For every response with status 200 or 201 that an attempt of a run receives,
  \<^verbatim>\<open>request()\<close> returns (it does not raise): the decoded body, unchanged, when decoding
  succeeds, and exactly \<^verbatim>\<open>{"success": True, "data": <raw text>}\<close> when it fails.
\<close>

theorem request_returns_success_body:
  "snd (request st t self meth path body query) = evs1 @ Send i c # evs2 \<Longrightarrow>
   t i = Response r \<Longrightarrow> status_code r = 200 \<or> status_code r = 201 \<Longrightarrow>
   fst (request st t self meth path body query)
     = Inr (case json r of
              Some decoded \<Rightarrow> decoded
            | None \<Rightarrow> JDict [(''success'', JBool True), (''data'', JStr (resp_text r))])"
proof -
  assume d: "snd (request st t self meth path body query) = evs1 @ Send i c # evs2"
    and r: "t i = Response r" and ok: "status_code r = 200 \<or> status_code r = 201"
  from d have "snd (request st t self meth path body query) \<noteq> []"
    by simp
  with request_trace_cases[of st t self meth path body query] obtain p hs where
    run: "client self = Some p" "select_headers (auth_manager self) path = Inr hs"
    by blast
  let ?mr = "yougile_max_retries st"
  let ?c = "mk_call meth path body query hs"
  from d have "snd (request_loop ?mr t ?c [0..?mr]) = evs1 @ Send i c # evs2"
    by (simp add: request_run(1)[OF run])
  from loop_decomp[OF this] r obtain as2 where
    "fst (request_loop ?mr t ?c [0..?mr]) = fst (request_loop ?mr t ?c (i # as2))"
    by auto
  then have "fst (request st t self meth path body query) = handle_response r"
    using r by (simp add: request_run(2)[OF run] loop_response sum_of_exit)
  with ok show ?thesis
    by (auto simp: handle_response_def split: option.splits)
qed

text \<open>A 200 whose body is the undecodable text "done".\<close>

theorem request_returns_success_body_witness:
  "snd (request default_settings (respond ok_plain) example_client ''GET'' ''/users'' None None)
      = [] @ Send 0 (example_call ''/users'') # []
   \<and> respond ok_plain 0 = Response ok_plain
   \<and> status_code ok_plain = 200
   \<and> fst (request default_settings (respond ok_plain) example_client ''GET'' ''/users'' None None)
      = Inr (JDict [(''success'', JBool True), (''data'', JStr ''done'')])"
proof -
  have tr: "snd (request default_settings (respond ok_plain) example_client ''GET'' ''/users'' None None)
      = [] @ Send 0 (example_call ''/users'') # []"
    by (simp add: respond_run)
  have r: "respond ok_plain 0 = Response ok_plain"
    by (simp add: respond_def)
  have s: "status_code ok_plain = 200 \<or> status_code ok_plain = 201"
    by (simp add: ok_plain_def)
  from request_returns_success_body[OF tr r s] tr r show ?thesis
    by (simp add: ok_plain_def)
qed

text \<open>
  What \<^verbatim>\<open>_handle_response\<close> raises for a status other than 200 and 201 when
  \<^verbatim>\<open>error_data\<close> is a dict, that is, when the body decodes to an object or does not decode
  at all: the class and status code follow the table, the message is the "error" entry or
  "HTTP <code>", and only the generic error keeps the details.
\<close>

lemma handle_response_error:
  assumes "status_code r \<noteq> 200" "status_code r \<noteq> 201" and "error_data r = JDict d"
  shows "handle_response r =
     Inl (let m = (case map_of d ''error'' of
                     Some v \<Rightarrow> v
                   | None \<Rightarrow> JStr (''HTTP '' @ str_int (status_code r)))
          in if status_code r = 401 then Exc AuthenticationErrorC m (Some 401) []
             else if status_code r = 403 then Exc AuthorizationErrorC m (Some 403) []
             else if status_code r = 404 then Exc NotFoundErrorC m (Some 404) []
             else if status_code r = 429 then Exc RateLimitErrorC m (Some 429) []
             else Exc YouGileErrorC m (Some (status_code r)) d)"
  using assms
  by (simp add: handle_response_def Let_def AuthenticationError_def AuthorizationError_def
        NotFoundError_def RateLimitError_def YouGileError_def base_init_def http_message_def
        split: option.splits)

lemma error_data_cases:
  "error_data r =
     (case json r of
        Some v \<Rightarrow> v
      | None \<Rightarrow> JDict [(''error'', JStr (if resp_text r = []
                                           then ''HTTP '' @ str_int (status_code r)
                                           else resp_text r))])"
  by (simp add: error_data_def http_message_def split: option.splits)

text \<open>When the body decodes to anything but an object, the lookup itself raises.\<close>

lemma handle_response_not_dict:
  assumes "status_code r \<noteq> 200" "status_code r \<noteq> 201"
    and "json r = Some v" and "\<forall>d. v \<noteq> JDict d"
  shows "handle_response r = Inl (AttributeError (type_name v) ''get'')"
  using assms by (cases v) (simp_all add: handle_response_def error_data_def)

text \<open>
  C2. For every response with a status outside 200 and 201, \<^verbatim>\<open>request()\<close> should raise the
  typed error of the status code. It does not when the body is valid JSON that is not an
  object: a 404 whose body is the JSON array \<^verbatim>\<open>[]\<close> makes \<^verbatim>\<open>request()\<close> raise
  \<^verbatim>\<open>AttributeError\<close> ("'list' object has no attribute 'get'") where the claim promises
  \<^verbatim>\<open>NotFoundError\<close>.
\<close>

theorem request_not_found_list_raises_attribute_error:
  "request default_settings (respond not_found_list) example_client ''GET'' ''/tasks/1'' None None
     = (Inl (AttributeError ''list'' ''get''), [Send 0 (example_call ''/tasks/1'')])"
  by (simp add: eval_request handle_response_def not_found_list_def error_data_def)

section \<open>The fallback after the loop\<close>

lemma handle_response_status:
  "handle_response r = Inl (Exc cls m sc d) \<Longrightarrow> sc \<noteq> None"
  by (auto simp: handle_response_def AuthenticationError_def AuthorizationError_def
        NotFoundError_def RateLimitError_def YouGileError_def base_init_def Let_def
        split: if_splits option.splits jvalue.splits)

lemma loop_not_max:
  "fst (request_loop mr t c as)
     \<noteq> Raise (Exc YouGileErrorC (JStr ''Max retries exceeded'') None d)"
proof (induction as)
  case Nil
  then show ?case by (simp add: loop_Nil)
next
  case (Cons a rest)
  show ?case
  proof (cases "retryable (t a) \<and> a \<noteq> mr")
    case True
    then show ?thesis using Cons.IH by (simp add: loop_retry)
  next
    case False
    show ?thesis
    proof (cases "t a")
      case (Response r)
      then show ?thesis
        using handle_response_status[of r] by (auto simp: loop_response split: sum.splits)
    next
      case TimeoutException
      with False have "a = mr" by simp
      with TimeoutException show ?thesis
        by (simp add: loop_last_timeout YouGileError_plain)
    next
      case (NetworkError e)
      with False have "a = mr" by simp
      with NetworkError show ?thesis
        by (simp add: loop_last_network YouGileError_plain)
    next
      case (OtherError e)
      then show ?thesis by (simp add: loop_other)
    qed
  qed
qed

lemma select_headers_error:
  "select_headers am path = Inl e \<Longrightarrow>
   e = Exc AuthenticationErrorC (JStr ''No API key configured'') (Some 401) []"
  by (auto simp: select_headers_def get_auth_headers_def AuthenticationError_def base_init_def
        split: if_splits option.splits)

text \<open>
  C7, as the claim states it: the fallback after the loop is unreachable. It is reached
  when \<^verbatim>\<open>yougile_max_retries\<close>, an unconstrained integer setting, is negative: with -1 the
  range is empty, no attempt is made, and \<^verbatim>\<open>request()\<close> raises "Max retries exceeded".
\<close>

theorem negative_max_retries_reaches_fallback:
  "request (default_settings\<lparr>yougile_max_retries := - 1\<rparr>) always_timeout example_client
     ''GET'' ''/users'' None None
     = (Inl (Exc YouGileErrorC (JStr ''Max retries exceeded'') None []), [])"
  by (simp add: eval_request)

text \<open>
  C7, amended. The loop falls through to the statement after it exactly when
  \<^verbatim>\<open>yougile_max_retries\<close> is negative, so that its body never runs. When
  \<^verbatim>\<open>yougile_max_retries\<close> is 0 or more, every run leaves the loop by a \<^verbatim>\<open>return\<close> or a
  \<^verbatim>\<open>raise\<close>, and \<^verbatim>\<open>request()\<close> never raises the fallback's "Max retries exceeded".
\<close>

theorem fallthrough_iff_negative_max_retries:
  "(fst (request_loop (yougile_max_retries st) t c (py_range (yougile_max_retries st + 1)))
      = Fallthrough)
     = (yougile_max_retries st < 0)
   \<and> (0 \<le> yougile_max_retries st \<longrightarrow>
        fst (request st t self meth path body query)
          \<noteq> Inl (Exc YouGileErrorC (JStr ''Max retries exceeded'') None []))"
proof -
  let ?mr = "yougile_max_retries st"
  have neg: "fst (request_loop ?mr t c (py_range (?mr + 1))) = Fallthrough" if "?mr < 0"
    using that by (simp add: py_range_succ loop_Nil)
  have pos: "fst (request_loop ?mr t c (py_range (?mr + 1))) \<noteq> Fallthrough"
    if "0 \<le> ?mr" for c
  proof -
    from that have "[0..?mr] = [0..?mr - 1] @ [?mr]"
      by (rule upto_rec2)
    then have "[0..?mr] \<noteq> []" "last [0..?mr] = ?mr"
      by simp_all
    then show ?thesis
      unfolding py_range_succ by (rule loop_no_fallthrough)
  qed
  have req: "fst (request st t self meth path body query)
          \<noteq> Inl (Exc YouGileErrorC (JStr ''Max retries exceeded'') None [])"
    if mr: "0 \<le> ?mr"
  proof (cases "client self")
    case None
    then show ?thesis by (simp add: request_not_open)
  next
    case (Some p)
    show ?thesis
    proof (cases "select_headers (auth_manager self) path")
      case (Inl e)
      with select_headers_error[OF Inl] Some show ?thesis
        by (simp add: request_no_headers)
    next
      case (Inr hs)
      let ?c = "mk_call meth path body query hs"
      from pos[OF mr, of ?c] loop_not_max[of ?mr t ?c "[0..?mr]" "[]"]
      show ?thesis
        by (auto simp: request_run(2)[OF Some Inr] py_range_succ split: loop_exit.splits)
    qed
  qed
  show ?thesis using neg pos req by (metis not_less)
qed

theorem fallthrough_iff_negative_max_retries_witness:
  "0 \<le> yougile_max_retries default_settings
   \<and> fst (request default_settings always_timeout example_client ''GET'' ''/users'' None None)
       \<noteq> Inl (Exc YouGileErrorC (JStr ''Max retries exceeded'') None [])"
proof -
  have h: "0 \<le> yougile_max_retries default_settings"
    by (simp add: default_settings_def)
  from fallthrough_iff_negative_max_retries
         [of default_settings always_timeout "example_call ''/users''" example_client
             "''GET''" "''/users''" None None] h
  show ?thesis by blast
qed

section \<open>Headers\<close>

lemma loop_call: "Send i c' \<in> set (snd (request_loop mr t c as)) \<Longrightarrow> c' = c"
proof -
  assume "Send i c' \<in> set (snd (request_loop mr t c as))"
  then obtain evs1 evs2 where "snd (request_loop mr t c as) = evs1 @ Send i c' # evs2"
    by (auto simp: in_set_conv_decomp)
  from loop_decomp[OF this] show ?thesis by simp
qed

lemma loop_first:
  "0 \<le> mr \<Longrightarrow> \<exists>evs. snd (request_loop mr t c [0..mr]) = Send 0 c # evs"
proof -
  assume "0 \<le> mr"
  then have "[0..mr] = 0 # [0 + 1..mr]"
    by (rule upto_rec1)
  then show ?thesis
    using loop_head[of mr t c 0 "[0 + 1..mr]"] by simp
qed

lemma request_first:
  assumes "client self \<noteq> None" and "0 \<le> yougile_max_retries st"
    and "select_headers (auth_manager self) path = Inr hs"
  shows "\<exists>evs. snd (request st t self meth path body query)
           = Send 0 \<lparr>http_method = meth, url = full_url path, json_arg = body, params = query,
                       call_headers = hs\<rparr> # evs"
proof -
  from assms(1) obtain p where p: "client self = Some p"
    by auto
  from loop_first[OF assms(2), of t "mk_call meth path body query hs"]
  show ?thesis
    by (simp add: request_run(1)[OF p assms(3)] mk_call_def)
qed

text \<open>
  C5. For a path that starts with "/auth/" or "/api-v2/auth/" the headers are those of
  \<^verbatim>\<open>get_basic_headers()\<close>, which are always Content-Type and Accept, both
  application/json. For every other path they are those of \<^verbatim>\<open>get_auth_headers()\<close>, which
  raises \<^verbatim>\<open>AuthenticationError\<close> when no token is stored (the key is \<^verbatim>\<open>None\<close> or empty) and
  otherwise returns exactly Authorization "Bearer <token>", Content-Type and Accept. Every
  call a run sends carries the headers so selected. With no token and a path outside the
  auth prefix \<^verbatim>\<open>request()\<close> on an opened client raises the error with no event at all, so
  before any network attempt. On an opened client with \<^verbatim>\<open>yougile_max_retries\<close> of 0 or
  more, \<^verbatim>\<open>request()\<close> does go out: its first event is the call of attempt 0, carrying the
  basic headers on an auth path whatever the credential, and the Bearer headers of the
  stored token on any other path.
\<close>

theorem request_header_selection:
  "(startswith path ''/auth/'' \<or> startswith path ''/api-v2/auth/'' \<longrightarrow>
      select_headers am path = Inr (get_basic_headers am))
   \<and> get_basic_headers am
       = [(''Content-Type'', ''application/json''), (''Accept'', ''application/json'')]
   \<and> (\<not> (startswith path ''/auth/'' \<or> startswith path ''/api-v2/auth/'') \<longrightarrow>
      select_headers am path = get_auth_headers am)
   \<and> (\<not> truthy (api_key am) \<longrightarrow>
      get_auth_headers am
        = Inl (Exc AuthenticationErrorC (JStr ''No API key configured'') (Some 401) []))
   \<and> (\<forall>k. api_key am = Some k \<and> k \<noteq> [] \<longrightarrow>
      get_auth_headers am = Inr [(''Authorization'', ''Bearer '' @ k),
                                 (''Content-Type'', ''application/json''),
                                 (''Accept'', ''application/json'')])
   \<and> (\<forall>i c. Send i c \<in> set (snd (request st t self meth path body query)) \<longrightarrow>
      select_headers (auth_manager self) path = Inr (call_headers c))
   \<and> (client self \<noteq> None
        \<and> \<not> (startswith path ''/auth/'' \<or> startswith path ''/api-v2/auth/'')
        \<and> \<not> truthy (api_key (auth_manager self)) \<longrightarrow>
      request st t self meth path body query
        = (Inl (Exc AuthenticationErrorC (JStr ''No API key configured'') (Some 401) []), []))
   \<and> (client self \<noteq> None \<and> 0 \<le> yougile_max_retries st
        \<and> (startswith path ''/auth/'' \<or> startswith path ''/api-v2/auth/'') \<longrightarrow>
      (\<exists>evs. snd (request st t self meth path body query)
         = Send 0 \<lparr>http_method = meth, url = full_url path, json_arg = body, params = query,
                     call_headers = [(''Content-Type'', ''application/json''),
                                     (''Accept'', ''application/json'')]\<rparr> # evs))
   \<and> (\<forall>k. client self \<noteq> None \<and> 0 \<le> yougile_max_retries st
        \<and> \<not> (startswith path ''/auth/'' \<or> startswith path ''/api-v2/auth/'')
        \<and> api_key (auth_manager self) = Some k \<and> k \<noteq> [] \<longrightarrow>
      (\<exists>evs. snd (request st t self meth path body query)
         = Send 0 \<lparr>http_method = meth, url = full_url path, json_arg = body, params = query,
                     call_headers = [(''Authorization'', ''Bearer '' @ k),
                                     (''Content-Type'', ''application/json''),
                                     (''Accept'', ''application/json'')]\<rparr> # evs))"
proof -
  have noauth: "get_auth_headers a
      = Inl (Exc AuthenticationErrorC (JStr ''No API key configured'') (Some 401) [])"
    if "\<not> truthy (api_key a)" for a
    using that
    by (cases "api_key a") (auto simp: get_auth_headers_def AuthenticationError_def base_init_def)
  have sent: "select_headers (auth_manager self) path = Inr (call_headers c)"
    if s: "Send i c \<in> set (snd (request st t self meth path body query))" for i c
  proof -
    from s have "snd (request st t self meth path body query) \<noteq> []"
      by auto
    with request_trace_cases[of st t self meth path body query] obtain p hs where
      run: "client self = Some p" "select_headers (auth_manager self) path = Inr hs"
      by blast
    from s have "c = mk_call meth path body query hs"
      unfolding request_run(1)[OF run] by (rule loop_call)
    with run show ?thesis by (simp add: mk_call_def)
  qed
  have before: "request st t self meth path body query
        = (Inl (Exc AuthenticationErrorC (JStr ''No API key configured'') (Some 401) []), [])"
    if "client self \<noteq> None"
       "\<not> (startswith path ''/auth/'' \<or> startswith path ''/api-v2/auth/'')"
       "\<not> truthy (api_key (auth_manager self))"
  proof -
    from that(1) obtain p where p: "client self = Some p"
      by auto
    from that(2,3) have "select_headers (auth_manager self) path
        = Inl (Exc AuthenticationErrorC (JStr ''No API key configured'') (Some 401) [])"
      by (simp add: select_headers_def noauth)
    with p show ?thesis by (rule request_no_headers)
  qed
  have basic: "\<exists>evs. snd (request st t self meth path body query)
         = Send 0 \<lparr>http_method = meth, url = full_url path, json_arg = body, params = query,
                     call_headers = [(''Content-Type'', ''application/json''),
                                     (''Accept'', ''application/json'')]\<rparr> # evs"
    if "client self \<noteq> None" "0 \<le> yougile_max_retries st"
       "startswith path ''/auth/'' \<or> startswith path ''/api-v2/auth/''"
  proof -
    from that(3) have "select_headers (auth_manager self) path
        = Inr [(''Content-Type'', ''application/json''), (''Accept'', ''application/json'')]"
      by (auto simp: select_headers_def get_basic_headers_def)
    with that(1,2) show ?thesis by (rule request_first)
  qed
  have bearer: "\<exists>evs. snd (request st t self meth path body query)
         = Send 0 \<lparr>http_method = meth, url = full_url path, json_arg = body, params = query,
                     call_headers = [(''Authorization'', ''Bearer '' @ k),
                                     (''Content-Type'', ''application/json''),
                                     (''Accept'', ''application/json'')]\<rparr> # evs"
    if "client self \<noteq> None" "0 \<le> yougile_max_retries st"
       "\<not> (startswith path ''/auth/'' \<or> startswith path ''/api-v2/auth/'')"
       "api_key (auth_manager self) = Some k" "k \<noteq> []" for k
  proof -
    from that(3,4,5) have "select_headers (auth_manager self) path
        = Inr [(''Authorization'', ''Bearer '' @ k), (''Content-Type'', ''application/json''),
               (''Accept'', ''application/json'')]"
      by (simp add: select_headers_def get_auth_headers_def)
    with that(1,2) show ?thesis by (rule request_first)
  qed
  have parts: "(startswith path ''/auth/'' \<or> startswith path ''/api-v2/auth/'' \<longrightarrow>
      select_headers am path = Inr (get_basic_headers am))
   \<and> get_basic_headers am
       = [(''Content-Type'', ''application/json''), (''Accept'', ''application/json'')]
   \<and> (\<not> (startswith path ''/auth/'' \<or> startswith path ''/api-v2/auth/'') \<longrightarrow>
      select_headers am path = get_auth_headers am)
   \<and> (\<forall>k. api_key am = Some k \<and> k \<noteq> [] \<longrightarrow>
      get_auth_headers am = Inr [(''Authorization'', ''Bearer '' @ k),
                                 (''Content-Type'', ''application/json''),
                                 (''Accept'', ''application/json'')])"
    by (auto simp: select_headers_def get_basic_headers_def get_auth_headers_def)
  show ?thesis
    using parts noauth[of am] sent before basic bearer by blast
qed

text \<open>
  The key-issuance path without a token (the call goes out with the basic headers),
  \<^verbatim>\<open>get("/users")\<close> without a token (nothing goes out), and "/users" with the token "key"
  (the call goes out with the Bearer headers).
\<close>

theorem request_header_selection_witness:
  "startswith ''/auth/keys'' ''/auth/''
   \<and> client no_credential_client \<noteq> None
   \<and> 0 \<le> yougile_max_retries default_settings
   \<and> hd (snd (request default_settings always_timeout no_credential_client
                 ''POST'' ''/auth/keys'' None None))
       = Send 0 (basic_call ''/auth/keys'')
   \<and> \<not> (startswith ''/users'' ''/auth/'' \<or> startswith ''/users'' ''/api-v2/auth/'')
   \<and> \<not> truthy (api_key (auth_manager no_credential_client))
   \<and> request default_settings always_timeout no_credential_client ''GET'' ''/users'' None None
        = (Inl (Exc AuthenticationErrorC (JStr ''No API key configured'') (Some 401) []), [])
   \<and> client example_client \<noteq> None
   \<and> api_key (auth_manager example_client) = Some ''key''
   \<and> hd (snd (request default_settings always_timeout example_client
                 ''GET'' ''/users'' None None))
       = Send 0 (example_call ''/users'')
   \<and> Send 3 (example_call ''/users'')
        \<in> set (snd (request default_settings always_timeout example_client
                       ''GET'' ''/users'' None None))
   \<and> select_headers (auth_manager example_client) ''/users''
        = Inr [(''Authorization'', ''Bearer key''), (''Content-Type'', ''application/json''),
               (''Accept'', ''application/json'')]"
proof -
  have a: "startswith ''/auth/keys'' ''/auth/''"
    by (simp add: startswith_def)
  have b: "\<not> (startswith ''/users'' ''/auth/'' \<or> startswith ''/users'' ''/api-v2/auth/'')"
    by (simp add: startswith_def)
  have c: "client no_credential_client \<noteq> None"
    "\<not> truthy (api_key (auth_manager no_credential_client))"
    by (simp_all add: no_credential_client_def aenter_def client_init_def init_def)
  have d: "client example_client \<noteq> None"
    "api_key (auth_manager example_client) = Some ''key''" "''key'' \<noteq> []"
    by (simp_all add: example_client_def aenter_def client_init_def init_def)
  have m: "0 \<le> yougile_max_retries default_settings"
    by (simp add: default_settings_def)
  note t1 = request_header_selection
    [where path="''/auth/keys''" and am="init None None" and st=default_settings
       and t=always_timeout and self=no_credential_client and meth="''POST''"
       and body=None and query=None]
  note t2 = request_header_selection
    [where path="''/users''" and am="init None None" and st=default_settings
       and t=always_timeout and self=no_credential_client and meth="''GET''"
       and body=None and query=None]
  note t3 = request_header_selection
    [where path="''/users''" and am="init None None" and st=default_settings
       and t=always_timeout and self=example_client and meth="''GET''"
       and body=None and query=None]
  from t1 a c(1) m obtain evs1 where
    "snd (request default_settings always_timeout no_credential_client
            ''POST'' ''/auth/keys'' None None)
       = Send 0 \<lparr>http_method = ''POST'', url = full_url ''/auth/keys'', json_arg = None,
                   params = None,
                   call_headers = [(''Content-Type'', ''application/json''),
                                   (''Accept'', ''application/json'')]\<rparr> # evs1"
    by blast
  then have 1: "hd (snd (request default_settings always_timeout no_credential_client
                           ''POST'' ''/auth/keys'' None None))
       = Send 0 (basic_call ''/auth/keys'')"
    by (simp add: basic_call_def full_url_def startswith_def)
  from t2 b c
  have 2: "request default_settings always_timeout no_credential_client ''GET'' ''/users'' None None
        = (Inl (Exc AuthenticationErrorC (JStr ''No API key configured'') (Some 401) []), [])"
    by blast
  from t3 b d m obtain evs3 where
    "snd (request default_settings always_timeout example_client ''GET'' ''/users'' None None)
       = Send 0 \<lparr>http_method = ''GET'', url = full_url ''/users'', json_arg = None,
                   params = None,
                   call_headers = [(''Authorization'', ''Bearer '' @ ''key''),
                                   (''Content-Type'', ''application/json''),
                                   (''Accept'', ''application/json'')]\<rparr> # evs3"
    by blast
  then have 3: "hd (snd (request default_settings always_timeout example_client
                           ''GET'' ''/users'' None None))
       = Send 0 (example_call ''/users'')"
    by (simp add: example_call_def full_url_def startswith_def)
  have 4: "Send 3 (example_call ''/users'')
        \<in> set (snd (request default_settings always_timeout example_client
                       ''GET'' ''/users'' None None))"
    by (simp add: always_timeout_run)
  from t3 have "\<forall>i c. Send i c \<in> set (snd (request default_settings always_timeout
                    example_client ''GET'' ''/users'' None None)) \<longrightarrow>
      select_headers (auth_manager example_client) ''/users'' = Inr (call_headers c)"
    by blast
  from this[rule_format, OF 4]
  have 5: "select_headers (auth_manager example_client) ''/users''
        = Inr [(''Authorization'', ''Bearer key''), (''Content-Type'', ''application/json''),
               (''Accept'', ''application/json'')]"
    by (simp add: example_call_def)
  from a b c d m 1 2 3 4 5 show ?thesis by simp
qed

section \<open>Credentials\<close>

text \<open>A string strips to nothing exactly when it holds whitespace only.\<close>

lemma strip_Nil_iff: "strip s = [] \<longleftrightarrow> (\<forall>c\<in>set s. isspace c)"
proof
  assume "strip s = []"
  then have all: "\<forall>x\<in>set (dropWhile isspace s). isspace x"
    by (simp add: strip_def)
  have "dropWhile isspace s = []"
  proof (rule ccontr)
    assume ne: "dropWhile isspace s \<noteq> []"
    then have "\<not> isspace (hd (dropWhile isspace s))"
      by (rule hd_dropWhile)
    moreover have "hd (dropWhile isspace s) \<in> set (dropWhile isspace s)"
      using ne by simp
    ultimately show False using all by blast
  qed
  then show "\<forall>c\<in>set s. isspace c" by simp
next
  assume "\<forall>c\<in>set s. isspace c"
  then have d: "dropWhile isspace s = []"
    by simp
  show "strip s = []"
    unfolding strip_def d by simp
qed

text \<open>
  C6. \<^verbatim>\<open>set_credentials(token, company_id)\<close> raises if and only if at least one argument
  is empty or blank after trimming. Then the error is a \<^verbatim>\<open>ValidationError\<close> and the manager
  is exactly as before the call. Otherwise the call returns and the manager holds both
  trimmed values; the result is one of these two managers, never one with a single field
  replaced.
\<close>

theorem set_credentials_validates:
  "((\<exists>e. fst (set_credentials a key cid) = Inl e)
      = (key = [] \<or> strip key = [] \<or> cid = [] \<or> strip cid = []))
   \<and> (key = [] \<or> strip key = [] \<or> cid = [] \<or> strip cid = [] \<longrightarrow>
        (\<exists>m. fst (set_credentials a key cid) = Inl (Exc ValidationErrorC m (Some 400) []))
        \<and> snd (set_credentials a key cid) = a)
   \<and> (\<not> (key = [] \<or> strip key = [] \<or> cid = [] \<or> strip cid = []) \<longrightarrow>
        set_credentials a key cid
          = (Inr (), a\<lparr>api_key := Some (strip key), company_id := Some (strip cid)\<rparr>))"
  by (auto simp: set_credentials_def ValidationError_def base_init_def Let_def)

text \<open>A blank token leaves the stored pair alone; a padded one is stored trimmed.\<close>

theorem set_credentials_validates_witness:
  "strip ''  '' = []
   \<and> snd (set_credentials (init (Some ''k0'') (Some ''c0'')) ''  '' ''c1'')
       = init (Some ''k0'') (Some ''c0'')
   \<and> set_credentials (init (Some ''k0'') (Some ''c0'')) '' k1 '' ''c1''
       = (Inr (), \<lparr>api_key = Some ''k1'', company_id = Some ''c1''\<rparr>)"
proof -
  let ?a = "init (Some ''k0'') (Some ''c0'')"
  have blank: "strip ''  '' = []"
    by (simp add: strip_def isspace_def)
  have full: "\<not> ('' k1 '' = [] \<or> strip '' k1 '' = [] \<or> ''c1'' = [] \<or> strip ''c1'' = [])"
    by (simp add: strip_def isspace_def)
  from set_credentials_validates[where key="''  ''" and cid="''c1''" and a="?a"] blank
  have 1: "snd (set_credentials ?a ''  '' ''c1'') = ?a"
    by blast
  from set_credentials_validates[where key="'' k1 ''" and cid="''c1''" and a="?a"] full
  have "set_credentials ?a '' k1 '' ''c1''
       = (Inr (), ?a\<lparr>api_key := Some (strip '' k1 ''), company_id := Some (strip ''c1'')\<rparr>)"
    by blast
  then have 2: "set_credentials ?a '' k1 '' ''c1''
       = (Inr (), \<lparr>api_key = Some ''k1'', company_id = Some ''c1''\<rparr>)"
    by (simp add: strip_def isspace_def init_def)
  from blank 1 2 show ?thesis by simp
qed

lemma set_credentials_invariant:
  "both_or_neither a \<Longrightarrow> both_or_neither (snd (set_credentials a key cid))"
  by (auto simp: set_credentials_def both_or_neither_def Let_def)

text \<open>
  C9, as the claim states it: after construction both fields are set or neither is, and no
  partial state is used to build headers. The constructor takes each field on its own:
  \<^verbatim>\<open>AuthManager(api_key="key")\<close> holds a token and no company, and \<^verbatim>\<open>get_auth_headers()\<close>,
  which looks at the token only, builds the headers from it.
\<close>

theorem init_accepts_partial_credential:
  "\<not> both_or_neither (init (Some ''key'') None)
   \<and> get_auth_headers (init (Some ''key'') None)
       = Inr [(''Authorization'', ''Bearer key''), (''Content-Type'', ''application/json''),
              (''Accept'', ''application/json'')]"
  by (simp add: both_or_neither_def init_def get_auth_headers_def)

text \<open>
  C9, amended. A manager constructed with both fields or with neither (as
  \<^verbatim>\<open>AuthManager()\<close>, the only construction in the repository, is) has both fields set or
  neither after construction and after every \<^verbatim>\<open>set_credentials\<close> and
  \<^verbatim>\<open>clear_credentials\<close>, and whenever \<^verbatim>\<open>get_auth_headers()\<close> builds headers from such a
  manager both fields are set.
\<close>

theorem auth_run_both_or_neither:
  "truthy key = truthy cid \<Longrightarrow>
     both_or_neither (auth_run (init key cid) ops)
     \<and> (\<forall>hs. get_auth_headers (auth_run (init key cid) ops) = Inr hs \<longrightarrow>
            is_authenticated (auth_run (init key cid) ops))"
proof -
  assume start: "truthy key = truthy cid"
  have step: "both_or_neither (auth_step a x)" if "both_or_neither a" for a x
  proof (cases x)
    case (SetCredentials k c)
    with that show ?thesis
      by (simp add: set_credentials_invariant)
  next
    case ClearCredentials
    then show ?thesis
      by (simp add: both_or_neither_def clear_credentials_def)
  qed
  have run: "both_or_neither (auth_run a xs)" if "both_or_neither a" for a xs
    using that
  proof (induction xs arbitrary: a)
    case Nil
    then show ?case by simp
  next
    case (Cons x xs)
    from Cons.prems have "both_or_neither (auth_step a x)"
      by (rule step)
    then show ?case
      by (simp add: Cons.IH)
  qed
  from start have "both_or_neither (init key cid)"
    by (simp add: both_or_neither_def init_def)
  then have inv: "both_or_neither (auth_run (init key cid) ops)"
    by (rule run)
  have "is_authenticated b" if "get_auth_headers b = Inr hs" "both_or_neither b" for b hs
  proof -
    from that(1) have "truthy (api_key b)"
      by (cases "api_key b") (auto simp: get_auth_headers_def split: if_splits)
    with that(2) show ?thesis
      by (simp add: both_or_neither_def is_authenticated_def)
  qed
  with inv show ?thesis by blast
qed

text \<open>\<^verbatim>\<open>AuthManager()\<close>, then a blank token (refused), a credential, a clear, a credential.\<close>

theorem auth_run_both_or_neither_witness:
  "truthy None = truthy None
   \<and> auth_run (init None None)
        [SetCredentials '' '' ''company'', SetCredentials ''old'' ''company'', ClearCredentials,
         SetCredentials ''key'' '' company '']
       = \<lparr>api_key = Some ''key'', company_id = Some ''company''\<rparr>
   \<and> both_or_neither \<lparr>api_key = Some ''key'', company_id = Some ''company''\<rparr>
   \<and> get_auth_headers \<lparr>api_key = Some ''key'', company_id = Some ''company''\<rparr>
       = Inr [(''Authorization'', ''Bearer key''), (''Content-Type'', ''application/json''),
              (''Accept'', ''application/json'')]
   \<and> is_authenticated \<lparr>api_key = Some ''key'', company_id = Some ''company''\<rparr>"
proof -
  let ?ops = "[SetCredentials '' '' ''company'', SetCredentials ''old'' ''company'',
               ClearCredentials, SetCredentials ''key'' '' company '']"
  let ?b = "\<lparr>api_key = Some ''key'', company_id = Some ''company''\<rparr>"
  have s: "truthy None = truthy None"
    by simp
  have r: "auth_run (init None None) ?ops = ?b"
    by (simp add: set_credentials_def clear_credentials_def strip_def isspace_def init_def)
  have h: "get_auth_headers ?b
       = Inr [(''Authorization'', ''Bearer key''), (''Content-Type'', ''application/json''),
              (''Accept'', ''application/json'')]"
    by (simp add: get_auth_headers_def)
  from auth_run_both_or_neither[OF s, of ?ops] have
    "both_or_neither ?b \<and> (\<forall>hs. get_auth_headers ?b = Inr hs \<longrightarrow> is_authenticated ?b)"
    unfolding r .
  with h r show ?thesis by simp
qed

section \<open>The final URL\<close>

text \<open>A path that has the prefix is the final URL as it stands.\<close>

lemma full_url_prefixed: "startswith p ''/api-v2'' \<Longrightarrow> full_url p = p"
  by (simp add: full_url_def)

text \<open>
  C8. Path normalization is idempotent: \<open>full_url (full_url p) = full_url p\<close> for every
  path \<open>p\<close>, and for every bare path \<open>p\<close> (one that does not start with "/api-v2") the
  already-prefixed path "/api-v2" + \<open>p\<close> and \<open>p\<close> itself resolve to the same final URL,
  which is "/api-v2" + \<open>p\<close>.
\<close>

theorem full_url_idempotent:
  "full_url (full_url p) = full_url p
   \<and> (\<not> startswith p ''/api-v2'' \<longrightarrow>
        full_url (''/api-v2'' @ p) = full_url p \<and> full_url p = ''/api-v2'' @ p)"
  by (auto simp: full_url_def startswith_def)

theorem full_url_idempotent_witness:
  "\<not> startswith ''/tasks'' ''/api-v2''
   \<and> full_url (''/api-v2'' @ ''/tasks'') = full_url ''/tasks''
   \<and> full_url ''/tasks'' = ''/api-v2/tasks''"
proof -
  have h: "\<not> startswith ''/tasks'' ''/api-v2''"
    by (simp add: startswith_def)
  with full_url_idempotent[of "''/tasks''"]
  have "full_url (''/api-v2'' @ ''/tasks'') = full_url ''/tasks''
        \<and> full_url ''/tasks'' = ''/api-v2'' @ ''/tasks''"
    by blast
  with h show ?thesis by simp
qed

section \<open>A client that was never opened\<close>

text \<open>
  \<^verbatim>\<open>__aenter__\<close> sets the pool and \<^verbatim>\<open>__aexit__\<close> closes it without resetting the field, so
  the test \<^verbatim>\<open>not self._client\<close> tells a client that was never opened from the rest.
\<close>

lemma client_after_aenter:
  "client (aenter st self) \<noteq> None \<and> client (aexit (aenter st self)) \<noteq> None"
  by (simp add: aenter_def aexit_def)

text \<open>
  C10, as the claim states it: the \<^verbatim>\<open>RuntimeError\<close> comes first on an unopened client, so
  the authentication error of a missing credential applies only to a client inside its
  \<^verbatim>\<open>async with\<close> block. The second half fails: a client that has left the block keeps its
  (closed) pool, passes the test, and \<^verbatim>\<open>get("/users")\<close> with no credential raises
  \<^verbatim>\<open>AuthenticationError\<close>, with no network attempt.
\<close>

theorem exited_client_raises_authentication_error:
  "request default_settings always_timeout exited_client ''GET'' ''/users'' None None
     = (Inl (Exc AuthenticationErrorC (JStr ''No API key configured'') (Some 401) []), [])"
  by (simp add: request_def exited_client_def no_credential_client_def aexit_def aenter_def
        client_init_def init_def select_headers_def startswith_def get_auth_headers_def
        AuthenticationError_def base_init_def)

text \<open>
  C10, amended. A client is constructed with no connection pool. On a client whose pool
  was never opened, \<^verbatim>\<open>request()\<close>, and so \<^verbatim>\<open>get\<close>, \<^verbatim>\<open>post\<close>, \<^verbatim>\<open>put\<close> and \<^verbatim>\<open>delete\<close>, raises
  \<^verbatim>\<open>RuntimeError\<close> ("Client not initialized...") whatever the path and the credential,
  with no event: before header selection, the credential check and any network activity.
  Entering the block sets the pool and leaving it does not unset it, so the guarantee that
  a missing credential yields an authentication error before any network attempt applies
  to every client that has been opened, inside its block and after it.
\<close>

theorem request_requires_opened_client:
  "client (client_init st am) = None
   \<and> client (aenter st self) \<noteq> None
   \<and> client (aexit (aenter st self)) \<noteq> None
   \<and> auth_manager (aexit (aenter st self)) = auth_manager self
   \<and> (client self = None \<longrightarrow>
        request st t self meth path body query = (Inl (RuntimeError not_initialized), [])
        \<and> get st t self path query = (Inl (RuntimeError not_initialized), [])
        \<and> post st t self path body query = (Inl (RuntimeError not_initialized), [])
        \<and> put st t self path body = (Inl (RuntimeError not_initialized), [])
        \<and> delete st t self path = (Inl (RuntimeError not_initialized), []))
   \<and> (client self \<noteq> None
        \<and> \<not> (startswith path ''/auth/'' \<or> startswith path ''/api-v2/auth/'')
        \<and> \<not> truthy (api_key (auth_manager self)) \<longrightarrow>
        request st t self meth path body query
          = (Inl (Exc AuthenticationErrorC (JStr ''No API key configured'') (Some 401) []), []))"
proof -
  have closed: "request st t self meth path body query = (Inl (RuntimeError not_initialized), [])
        \<and> get st t self path query = (Inl (RuntimeError not_initialized), [])
        \<and> post st t self path body query = (Inl (RuntimeError not_initialized), [])
        \<and> put st t self path body = (Inl (RuntimeError not_initialized), [])
        \<and> delete st t self path = (Inl (RuntimeError not_initialized), [])"
    if "client self = None"
    using that by (simp add: get_def post_def put_def delete_def request_not_open)
  have opened: "request st t self meth path body query
          = (Inl (Exc AuthenticationErrorC (JStr ''No API key configured'') (Some 401) []), [])"
    if "client self \<noteq> None"
       "\<not> (startswith path ''/auth/'' \<or> startswith path ''/api-v2/auth/'')"
       "\<not> truthy (api_key (auth_manager self))"
  proof -
    from that(1) obtain p where p: "client self = Some p"
      by auto
    from that(3) have "get_auth_headers (auth_manager self)
        = Inl (Exc AuthenticationErrorC (JStr ''No API key configured'') (Some 401) [])"
      by (cases "api_key (auth_manager self)")
         (auto simp: get_auth_headers_def AuthenticationError_def base_init_def)
    with that(2) have "select_headers (auth_manager self) path
        = Inl (Exc AuthenticationErrorC (JStr ''No API key configured'') (Some 401) [])"
      by (simp add: select_headers_def)
    with p show ?thesis by (rule request_no_headers)
  qed
  have fields: "client (client_init st am) = None
     \<and> client (aenter st self) \<noteq> None
     \<and> client (aexit (aenter st self)) \<noteq> None
     \<and> auth_manager (aexit (aenter st self)) = auth_manager self"
    by (simp add: client_init_def aenter_def aexit_def)
  show ?thesis
    using fields closed opened by blast
qed

text \<open>
  \<^verbatim>\<open>get("/users")\<close> with no credential: outside \<^verbatim>\<open>async with\<close> on a client never opened,
  and inside the block.
\<close>

theorem request_requires_opened_client_witness:
  "client (client_init default_settings None) = None
   \<and> get default_settings always_timeout (client_init default_settings None) ''/users'' None
       = (Inl (RuntimeError not_initialized), [])
   \<and> client no_credential_client \<noteq> None
   \<and> \<not> (startswith ''/users'' ''/auth/'' \<or> startswith ''/users'' ''/api-v2/auth/'')
   \<and> \<not> truthy (api_key (auth_manager no_credential_client))
   \<and> request default_settings always_timeout no_credential_client ''GET'' ''/users'' None None
       = (Inl (Exc AuthenticationErrorC (JStr ''No API key configured'') (Some 401) []), [])"
proof -
  have n: "client (client_init default_settings None) = None"
    by (simp add: client_init_def)
  have b: "\<not> (startswith ''/users'' ''/auth/'' \<or> startswith ''/users'' ''/api-v2/auth/'')"
    by (simp add: startswith_def)
  have c: "client no_credential_client \<noteq> None"
    "\<not> truthy (api_key (auth_manager no_credential_client))"
    by (simp_all add: no_credential_client_def aenter_def client_init_def init_def)
  from request_requires_opened_client
         [where st=default_settings and am=None and self="client_init default_settings None"
            and t=always_timeout and meth="''GET''" and path="''/users''" and body=None
            and query=None] n
  have 1: "get default_settings always_timeout (client_init default_settings None) ''/users'' None
       = (Inl (RuntimeError not_initialized), [])"
    by blast
  from request_requires_opened_client
         [where st=default_settings and am=None and self=no_credential_client
            and t=always_timeout and meth="''GET''" and path="''/users''" and body=None
            and query=None] b c
  have 2: "request default_settings always_timeout no_credential_client ''GET'' ''/users'' None None
       = (Inl (Exc AuthenticationErrorC (JStr ''No API key configured'') (Some 401) []), [])"
    by blast
  from n b c 1 2 show ?thesis by simp
qed

end
